theory Spec2Isabelle
  imports Complex_Main "HOL-Library.Word"
begin

section \<open>Collective reduction: \<open>dash/algorithm/Accumulate.h\<close>\<close>

subsection \<open>Transport vocabulary used by \<open>dash::accumulate\<close>\<close>

text \<open>
  Modelled from the spec: the transport's operation and datatype tags are declared in
  the DART headers, which are not part of the sources at hand. The recognised reductions
  are "sum, product, min, max, logical and/or, bitwise and/or/xor"; every other
  \<open>BinaryOperation\<close> maps to \<open>DART_OP_UNDEFINED\<close>, every value type without a
  transport primitive maps to \<open>DART_TYPE_UNDEFINED\<close>.
\<close>

datatype dart_operation =
    DART_OP_UNDEFINED
  | DART_OP_MIN | DART_OP_MAX | DART_OP_SUM | DART_OP_PROD
  | DART_OP_BAND | DART_OP_LAND | DART_OP_BOR | DART_OP_LOR | DART_OP_BXOR

datatype dart_datatype =
    DART_TYPE_UNDEFINED
  | DART_TYPE_BYTE | DART_TYPE_SHORT | DART_TYPE_INT | DART_TYPE_UINT
  | DART_TYPE_LONG | DART_TYPE_ULONG | DART_TYPE_LONGLONG
  | DART_TYPE_FLOAT | DART_TYPE_DOUBLE

text \<open>
  What \<open>dash::accumulate\<close> asks of the transport and of the logger, in program order.
  \<open>Dart_allreduce_custom\<close> is the all-reduce on the \<open>(value, valid)\<close> payload with the
  operation made by \<open>dart_op_create\<close>; \<open>Dart_allreduce_native\<close> is the all-reduce on the
  raw values with a predefined operation.
\<close>

datatype accumulate_event =
    Dart_type_create_custom
  | Dart_op_create
  | Dart_allreduce_custom
  | Dart_op_destroy
  | Dart_type_destroy
  | Dart_allreduce_native dart_datatype dart_operation
  | Dash_log_error string

text \<open>\<open>struct local_result { ValueType value{}; bool valid = false; }\<close>\<close>

record 'a local_result =
  "value" :: 'a
  valid :: bool

text \<open>
  \<open>internal::accumulate_custom_fn\<close>: the first argument is \<open>*invec\<close>, the second
  \<open>*inoutvec\<close>; the result is \<open>*inoutvec\<close> after the call.
\<close>

definition accumulate_custom_fn ::
  "('a \<Rightarrow> 'a \<Rightarrow> 'a) \<Rightarrow> 'a local_result \<Rightarrow> 'a local_result \<Rightarrow> 'a local_result" where
  "accumulate_custom_fn fn invec inout =
     (if valid invec then
        (if valid inout then inout\<lparr>value := fn (value invec) (value inout)\<rparr>
         else inout\<lparr>value := value invec, valid := True\<rparr>)
      else inout)"

text \<open>
  Modelled from the spec: \<open>dart_allreduce(sendbuf, recvbuf, count, dtype, op, team)\<close>
  is a transport primitive that is not part of the sources. It combines the send buffers of
  all units of the team with \<open>op\<close> and hands the same result to every unit. The team is
  never empty (it contains the caller), so the buffers are given as the one of unit 0 and
  the list of the others in unit order. The operation is called as the transport calls a
  user operation, \<open>op(invec, inoutvec)\<close>, with the buffer of the lower unit as \<open>invec\<close>.
\<close>

fun dart_allreduce :: "('p \<Rightarrow> 'p \<Rightarrow> 'p) \<Rightarrow> 'p \<Rightarrow> 'p list \<Rightarrow> 'p" where
  "dart_allreduce op c [] = c"
| "dart_allreduce op c (d # ds) = op c (dart_allreduce op d ds)"

text \<open>
  The local phase of \<open>dash::accumulate\<close> (lines 92--99): \<open>l_result\<close> of one unit whose
  local range \<open>[in_first, in_last)\<close> holds the elements \<open>l\<close>. \<open>dflt\<close> is the
  value-initialised \<open>ValueType{}\<close>. \<open>std::accumulate(next(first), last, *first, op)\<close> is
  the left fold that starts from the first element.
\<close>

definition accumulate_local ::
  "'a \<Rightarrow> ('a \<Rightarrow> 'a \<Rightarrow> 'a) \<Rightarrow> 'a list \<Rightarrow> 'a local_result" where
  "accumulate_local dflt binary_op l =
     (case l of
        [] \<Rightarrow> \<lparr>value = dflt, valid = False\<rparr>
      | x # xs \<Rightarrow> \<lparr>value = foldl binary_op x xs, valid = True\<rparr>)"

text \<open>
  \<open>dash::accumulate(in_first, in_last, init, binary_op, non_empty, team)\<close>, the
  local-range overload, run collectively by the team. \<open>r\<close> is the local range of unit 0 and
  \<open>rs\<close> are the local ranges of the other units. The parameters that the source takes
  from headers outside the sources at hand:
  \<^item> \<open>dflt\<close>: the value-initialised \<open>ValueType{}\<close>;
  \<^item> \<open>dop\<close>: \<open>dart_reduce_operation<BinaryOperation>::value\<close>;
  \<^item> \<open>dtype\<close>: \<open>dart_storage<ValueType>::dtype\<close>;
  \<^item> \<open>predef\<close>: what the transport's predefined operations compute on \<open>ValueType\<close>.
  The result is the returned value and the trace of transport and logger calls.
\<close>

definition accumulate ::
  "'a \<Rightarrow> dart_operation \<Rightarrow> dart_datatype \<Rightarrow> (dart_operation \<Rightarrow> 'a \<Rightarrow> 'a \<Rightarrow> 'a) \<Rightarrow>
   'a list \<Rightarrow> 'a list list \<Rightarrow> 'a \<Rightarrow> ('a \<Rightarrow> 'a \<Rightarrow> 'a) \<Rightarrow> bool \<Rightarrow> 'a \<times> accumulate_event list" where
  "accumulate dflt dop dtype predef r rs init binary_op non_empty =
     (let l_result = accumulate_local dflt binary_op;
          (g_result, trace) =
            (if \<not> non_empty \<or> dop = DART_OP_UNDEFINED \<or> dtype = DART_TYPE_UNDEFINED
             then
               (dart_allreduce (accumulate_custom_fn binary_op) (l_result r) (map l_result rs),
                [Dart_type_create_custom, Dart_op_create, Dart_allreduce_custom,
                 Dart_op_destroy, Dart_type_destroy])
             else
               (\<lparr>value = dart_allreduce (predef dop) (value (l_result r))
                          (map (\<lambda>l. value (l_result l)) rs),
                 valid = True\<rparr>,
                [Dart_allreduce_native dtype dop]));
          trace' = (if \<not> valid g_result
                    then trace @ [Dash_log_error ''Found invalid reduction value!'']
                    else trace);
          result = value g_result
      in (binary_op init result, trace'))"

text \<open>
  The global-range overload (lines 205--224). \<open>dash::local_range\<close> is outside the sources
  at hand, so the local ranges it computes are the arguments \<open>r\<close> and \<open>rs\<close>; the overload
  passes \<open>units_non_empty = false\<close>.
\<close>

definition accumulate_global ::
  "'a \<Rightarrow> dart_operation \<Rightarrow> dart_datatype \<Rightarrow> (dart_operation \<Rightarrow> 'a \<Rightarrow> 'a \<Rightarrow> 'a) \<Rightarrow>
   'a list \<Rightarrow> 'a list list \<Rightarrow> 'a \<Rightarrow> ('a \<Rightarrow> 'a \<Rightarrow> 'a) \<Rightarrow> 'a \<times> accumulate_event list" where
  "accumulate_global dflt dop dtype predef r rs init binary_op =
     accumulate dflt dop dtype predef r rs init binary_op False"


text \<open>
  The specification speaks of a local fold "in canonical local order starting from the
  first local element"; this is that fold, written from those words, for a local range
  that has a first element.
\<close>

definition local_fold :: "('a \<Rightarrow> 'a \<Rightarrow> 'a) \<Rightarrow> 'a list \<Rightarrow> 'a" where
  "local_fold binary_op l = foldl binary_op (hd l) (tl l)"

text \<open>
  Modelled from the spec: what the transport's predefined reductions compute on a signed
  integer value type (sum, product, min, max, logical and/or, bitwise and/or/xor). The
  transport is never asked to reduce with \<open>DART_OP_UNDEFINED\<close>.
\<close>

fun dart_predefined_int :: "dart_operation \<Rightarrow> int \<Rightarrow> int \<Rightarrow> int" where
  "dart_predefined_int DART_OP_MIN a b = min a b"
| "dart_predefined_int DART_OP_MAX a b = max a b"
| "dart_predefined_int DART_OP_SUM a b = a + b"
| "dart_predefined_int DART_OP_PROD a b = a * b"
| "dart_predefined_int DART_OP_BAND a b = and a b"
| "dart_predefined_int DART_OP_LAND a b = (if a \<noteq> 0 \<and> b \<noteq> 0 then 1 else 0)"
| "dart_predefined_int DART_OP_BOR a b = or a b"
| "dart_predefined_int DART_OP_LOR a b = (if a = 0 \<and> b = 0 then 0 else 1)"
| "dart_predefined_int DART_OP_BXOR a b = xor a b"
| "dart_predefined_int DART_OP_UNDEFINED a b = b"

section \<open>Global pointers and asynchronous references: \<open>dash/GlobAsyncRef.h\<close>\<close>

subsection \<open>Global pointers\<close>

text \<open>
  Modelled from the spec: \<open>dart_gptr_t\<close> is declared in the DART headers, which are not
  part of the sources at hand. A global pointer is the "logical triple (segment, unit,
  offset)", the offset counted in bytes; "a null value is distinguished"
  (\<open>DART_GPTR_NULL\<close>), and \<open>DART_GPTR_ISNULL\<close> recognises it. Offsets and native
  addresses are 64-bit machine words, so pointer arithmetic wraps.
\<close>

record dart_gptr =
  segid :: int
  unitid :: int
  offset :: "64 word"

definition DART_GPTR_NULL :: dart_gptr where
  "DART_GPTR_NULL = \<lparr>segid = 0, unitid = - 1, offset = 0\<rparr>"

definition DART_GPTR_ISNULL :: "dart_gptr \<Rightarrow> bool" where
  "DART_GPTR_ISNULL g = (g = DART_GPTR_NULL)"

datatype dart_ret = DART_OK | DART_ERR_INVAL | DART_ERR_OTHER

text \<open>
  Modelled from the spec: \<open>dart_gptr_incaddr(&gptr, offs)\<close>, the transport's
  "increment_address(bytes) for struct-member offset": it advances the offset of the global
  pointer by \<open>offs\<close> bytes and reports success.
\<close>

definition dart_gptr_incaddr :: "dart_gptr \<Rightarrow> 64 word \<Rightarrow> dart_ret \<times> dart_gptr" where
  "dart_gptr_incaddr g offs = (DART_OK, g\<lparr>offset := offset g + offs\<rparr>)"

text \<open>
  How a call can end other than by returning: \<open>DASH_ASSERT_RETURNS\<close> fails, or a native
  pointer that does not point to an object is dereferenced.
\<close>

datatype failure = Assertion_failed | Invalid_pointer | Out_of_bounds

subsection \<open>\<open>class GlobAsyncRef\<close>\<close>

text \<open>
  The three members \<open>_gptr\<close>, \<open>_lptr\<close>, \<open>_is_local\<close>. A native pointer is its address,
  \<open>nullptr\<close> is address 0. \<open>GlobAsyncRef_default\<close> holds the default member
  initialisers.
\<close>

record GlobAsyncRef =
  gptr :: dart_gptr
  lptr :: "64 word"
  is_local :: bool

definition GlobAsyncRef_default :: GlobAsyncRef where
  "GlobAsyncRef_default = \<lparr>gptr = DART_GPTR_NULL, lptr = 0, is_local = False\<rparr>"

text \<open>
  The private constructor \<open>GlobAsyncRef(parent, offset)\<close> (lines 90--105): the member
  initialisers first, then \<open>dart_gptr_incaddr(&_gptr, offset)\<close> under
  \<open>DASH_ASSERT_RETURNS\<close>.
\<close>

definition GlobAsyncRef_of_parent :: "GlobAsyncRef \<Rightarrow> 64 word \<Rightarrow> failure + GlobAsyncRef" where
  "GlobAsyncRef_of_parent parent offs =
     (let self = \<lparr>gptr = gptr parent,
                  lptr = (if is_local parent then lptr parent + offs else 0),
                  is_local = is_local parent\<rparr>;
          (ret, g) = dart_gptr_incaddr (gptr self) offs
      in if ret = DART_OK then Inr (self\<lparr>gptr := g\<rparr>) else Inl Assertion_failed)"

text \<open>\<open>member<MEMTYPE>(size_t offs)\<close> (lines 187--190).\<close>

definition member :: "GlobAsyncRef \<Rightarrow> 64 word \<Rightarrow> failure + GlobAsyncRef" where
  "member this offs = GlobAsyncRef_of_parent this offs"

text \<open>
  \<open>member(const MEMTYPE P::*mem)\<close> (lines 195--200). A pointer to member is given by the
  byte offset of the member in \<open>P\<close>, which is what
  \<open>(size_t) &(reinterpret_cast<P*>(0)->*mem)\<close> evaluates to.
\<close>

definition member_ptr :: "GlobAsyncRef \<Rightarrow> 64 word \<Rightarrow> failure + GlobAsyncRef" where
  "member_ptr this mem = (let offs = mem in member this offs)"

text \<open>
  \<open>flush()\<close> (lines 293--302). The transport calls made so far are \<open>calls\<close>;
  \<open>dart_flush\<close> gives the return code of the transport for a flush on a global pointer.
  The result is the calls made and how the call ended (\<open>None\<close>: it returned).
\<close>

datatype transport_call = Dart_flush dart_gptr

definition flush ::
  "(dart_gptr \<Rightarrow> dart_ret) \<Rightarrow> GlobAsyncRef \<Rightarrow> transport_call list \<Rightarrow>
   transport_call list \<times> failure option" where
  "flush dart_flush this calls =
     (if \<not> DART_GPTR_ISNULL (gptr this)
      then (calls @ [Dart_flush (gptr this)],
            if dart_flush (gptr this) = DART_OK then None else Some Assertion_failed)
      else (calls, None))"

subsection \<open>\<open>class Future<dash::GlobRef<T>>\<close>\<close>

text \<open>
  The future's constructor hands the transport the address of one of its own members, so
  the model keeps the calling unit's native memory as an explicit store. The value type
  \<open>T\<close> is taken to be as wide as a native pointer (64 bits), so one cell of the store
  holds one value or one pointer.

  Modelled from the spec: the transport's \<open>get_handle\<close> and \<open>wait(handle)\<close> are not part
  of the sources at hand. \<open>dart_get_handle(dest, gptr, nelem, dtype, &handle)\<close> starts a
  non-blocking get of the element at \<open>gptr\<close> into the native address \<open>dest\<close> and returns a
  handle; \<open>dart_wait(handle)\<close> "blocks until complete", after which the element is stored
  at \<open>dest\<close>.
\<close>

record dart_state =
  local_mem :: "64 word \<rightharpoonup> 64 word"
  global_mem :: "dart_gptr \<rightharpoonup> 64 word"
  handles :: "nat \<rightharpoonup> 64 word \<times> dart_gptr"
  next_handle :: nat

definition dart_get_handle :: "dart_state \<Rightarrow> 64 word \<Rightarrow> dart_gptr \<Rightarrow> dart_state \<times> nat" where
  "dart_get_handle st dest g =
     (let h = next_handle st
      in (st\<lparr>handles := (handles st)(h \<mapsto> (dest, g)), next_handle := Suc h\<rparr>, h))"

definition dart_wait :: "dart_state \<Rightarrow> nat \<Rightarrow> dart_ret \<times> dart_state" where
  "dart_wait st h =
     (case handles st h of
        None \<Rightarrow> (DART_ERR_INVAL, st)
      | Some (dest, g) \<Rightarrow>
          (case global_mem st g of
             None \<Rightarrow> (DART_ERR_INVAL, st)
           | Some v \<Rightarrow>
               (DART_OK, st\<lparr>local_mem := (local_mem st)(dest \<mapsto> v),
                            handles := (handles st)(h := None)\<rparr>)))"

text \<open>
  The members of the future. \<open>_valptr\<close> is a \<open>std::unique_ptr<value_t>\<close>, an object of
  the size of a pointer that lives inside the future; \<open>valptr_addr\<close> is the address of
  that member (\<open>&_valptr\<close>), and the pointer it holds is the content of the store there.
\<close>

record Future =
  valptr_addr :: "64 word"
  handle :: nat
  completed :: bool

text \<open>
  The constructors \<open>Future(GlobRef<T>&)\<close> and \<open>Future(GlobAsyncRef<T>&)\<close> (lines
  339--360) have the same body and use only \<open>dart_gptr()\<close> of the reference, here \<open>g\<close>.
  \<open>self\<close> is where the member \<open>_valptr\<close> of the new future lives, \<open>buf\<close> is the address
  that \<open>new value_t\<close> returns and \<open>indet\<close> the indeterminate content of the fresh buffer.
  The destination passed to \<open>dart_get_handle\<close> is \<open>&_valptr\<close>, as in the source.
\<close>

definition Future_ctor ::
  "dart_state \<Rightarrow> 64 word \<Rightarrow> 64 word \<Rightarrow> 64 word \<Rightarrow> dart_gptr \<Rightarrow> dart_state \<times> Future" where
  "Future_ctor st self buf indet g =
     (let st1 = st\<lparr>local_mem := (local_mem st)(buf \<mapsto> indet, self \<mapsto> buf)\<rparr>;
          (st2, h) = dart_get_handle st1 self g
      in (st2, \<lparr>valptr_addr = self, handle = h, completed = False\<rparr>))"

definition Future_of_GlobAsyncRef ::
  "dart_state \<Rightarrow> 64 word \<Rightarrow> 64 word \<Rightarrow> 64 word \<Rightarrow> GlobAsyncRef \<Rightarrow> dart_state \<times> Future" where
  "Future_of_GlobAsyncRef st self buf indet aref = Future_ctor st self buf indet (gptr aref)"

text \<open>\<open>wait()\<close> (lines 390--396).\<close>

definition Future_wait :: "dart_state \<Rightarrow> Future \<Rightarrow> failure + dart_state \<times> Future" where
  "Future_wait st f =
     (if \<not> completed f then
        (case dart_wait st (handle f) of
           (ret, st') \<Rightarrow>
             if ret = DART_OK then Inr (st', f\<lparr>completed := True\<rparr>) else Inl Assertion_failed)
      else Inr (st, f))"

text \<open>
  \<open>get()\<close> (lines 402--408): \<open>wait()\<close> unless completed, then \<open>return *_valptr\<close>, which
  reads the pointer held by the member and then the cell it points to.
\<close>

definition Future_get :: "dart_state \<Rightarrow> Future \<Rightarrow> failure + 64 word \<times> dart_state \<times> Future" where
  "Future_get st f =
     (case (if \<not> completed f then Future_wait st f else Inr (st, f)) of
        Inl e \<Rightarrow> Inl e
      | Inr (st', f') \<Rightarrow>
          (case local_mem st' (valptr_addr f') of
             None \<Rightarrow> Inl Invalid_pointer
           | Some p \<Rightarrow>
               (case local_mem st' p of
                  None \<Rightarrow> Inl Invalid_pointer
                | Some v \<Rightarrow> Inr (v, st', f'))))"

section \<open>Views\<close>

text \<open>
  Modelled from the spec: \<open>dash::sub\<close> and the view classes are not part of the sources
  at hand (only the test \<open>NViewTest.cc\<close> that calls them is). A view "carries cached
  per-dimension extents and offsets"; \<open>sub<d>(a, b, V)\<close> "narrows dimension \<open>d\<close> of \<open>V\<close>
  to \<open>[a, b)\<close>", "requires \<open>0 \<le> a \<le> b \<le> V.extent(d)\<close>" and "preserves rank"; an
  out-of-range \<open>sub\<close> is a precondition violation, here \<open>None\<close>.
\<close>

record view =
  offsets :: "nat list"
  extents :: "nat list"

definition sub_view :: "nat \<Rightarrow> nat \<Rightarrow> nat \<Rightarrow> view \<Rightarrow> view option" where
  "sub_view d a b V =
     (if d < length (extents V) \<and> d < length (offsets V) \<and> a \<le> b \<and> b \<le> extents V ! d
      then Some (V\<lparr>offsets := (offsets V)[d := offsets V ! d + a],
                   extents := (extents V)[d := b - a]\<rparr>)
      else None)"

section \<open>Pattern metrics: \<open>dash/util/PatternMetrics.h\<close>\<close>

text \<open>
  The operations of the template parameter \<open>PatternT\<close> that \<open>PatternMetrics\<close> calls on a
  rank-2 pattern: \<open>blockspec().size()\<close>, \<open>teamspec().size()\<close>, \<open>block(bi).offset(0)\<close> and
  \<open>block(bi).offset(1)\<close> as a pair, \<open>unit_at\<close> on a coordinate pair, \<open>blocksize(d)\<close>, and
  the global extents. The pattern classes themselves are not part of the sources at hand,
  so a pattern is given by these operations.
\<close>

record pattern =
  blockspec_size :: nat
  teamspec_size :: nat
  block_offset :: "nat \<Rightarrow> nat \<times> nat"
  unit_at :: "nat \<times> nat \<Rightarrow> nat"
  blocksize :: "nat \<Rightarrow> nat"
  pattern_extents :: "nat \<times> nat"

text \<open>
  A C++ \<open>int\<close> is a 32-bit two's-complement integer: \<open>int32 x\<close> is the \<open>int\<close> that holds
  \<open>x\<close> after a conversion from a wider integer type or after an arithmetic operation on
  \<open>int\<close>s (the source leaves signed overflow undefined; the model takes the wrapped
  result).
\<close>

definition int32 :: "int \<Rightarrow> int" where
  "int32 x = (x + 2147483648) mod 4294967296 - 2147483648"

text \<open>
  The value of a \<open>float\<close> or \<open>double\<close>: a rational number, an infinity or not-a-number.
  The sign of a zero is not kept.
\<close>

datatype float_value = Finite rat | Pos_inf | Neg_inf | NaN

text \<open>
  Rounding to the nearest \<open>float\<close> (IEEE 754 binary32, 24 significant bits, ties to
  even), for a rational in the range of normal \<open>float\<close>s; the values and quotients of
  \<open>int\<close>s lie between \<open>2^(-31)\<close> and \<open>2^31\<close> in magnitude, well inside that range.
  \<open>bit_length n\<close> is the number of binary digits of \<open>n\<close>, \<open>pow2 e\<close> is \<open>2^e\<close>.
\<close>

fun bit_length :: "nat \<Rightarrow> nat" where
  "bit_length n = (if n = 0 then 0 else Suc (bit_length (n div 2)))"

declare bit_length.simps [simp del]

definition pow2 :: "int \<Rightarrow> rat" where
  "pow2 e = (if 0 \<le> e then 2 ^ nat e else 1 / 2 ^ nat (- e))"

definition round_to_even :: "rat \<Rightarrow> int" where
  "round_to_even x =
     (let f = \<lfloor>x\<rfloor>; r = x - of_int f
      in if r < 1 / 2 then f else if 1 / 2 < r then f + 1 else if even f then f else f + 1)"

definition float_round :: "rat \<Rightarrow> rat" where
  "float_round q =
     (if q = 0 then 0
      else
        (let (a, b) = quotient_of \<bar>q\<bar>;
             e0 = int (bit_length (nat a)) - int (bit_length (nat b));
             ex = (if \<bar>q\<bar> < pow2 e0 then e0 - 1 else e0);
             m = round_to_even (\<bar>q\<bar> / pow2 (ex - 23))
         in sgn q * of_int m * pow2 (ex - 23)))"

text \<open>\<open>static_cast<float>(i)\<close> of an \<open>int\<close> and the division of two \<open>float\<close>s.\<close>

definition float_of_int :: "int \<Rightarrow> rat" where
  "float_of_int i = float_round (of_int i)"

definition float_div :: "rat \<Rightarrow> rat \<Rightarrow> float_value" where
  "float_div a b =
     (if b = 0 then (if a = 0 then NaN else if 0 < a then Pos_inf else Neg_inf)
      else Finite (float_round (a / b)))"

text \<open>
  The members of \<open>PatternMetrics\<close>. The counters are C++ \<open>int\<close>s, integers that every
  assignment keeps within 32 bits by \<open>int32\<close>. \<open>_imb_factor\<close> is a \<open>double\<close> that receives
  a \<open>float\<close> quotient.
\<close>

record PatternMetrics =
  m_unit_blocks :: "int list"
  m_num_blocks :: int
  m_block_size :: int
  m_min_blocks :: int
  m_max_blocks :: int
  m_num_imb_units :: int
  m_num_bal_units :: int
  m_imb_factor :: float_value

text \<open>
  The loop over the blocks (lines 104--111) for the block indices \<open>bis\<close> still to visit.
  \<open>_unit_blocks[block_unit]++\<close> outside the vector is undefined behaviour in the source
  and ends the model with \<open>Out_of_bounds\<close>.
\<close>

fun count_unit_blocks :: "pattern \<Rightarrow> nat list \<Rightarrow> int list \<Rightarrow> failure + int list" where
  "count_unit_blocks p [] ub = Inr ub"
| "count_unit_blocks p (bi # bis) ub =
     (let block_unit = unit_at p (block_offset p bi)
      in if block_unit < length ub
         then count_unit_blocks p bis (ub[block_unit := int32 (ub ! block_unit + 1)])
         else Inl Out_of_bounds)"

text \<open>\<open>std::min_element\<close> and \<open>std::max_element\<close> dereferenced, on a non-empty range.\<close>

fun min_element :: "int \<Rightarrow> int list \<Rightarrow> int" where
  "min_element x [] = x"
| "min_element x (y # ys) = min_element (if y < x then y else x) ys"

fun max_element :: "int \<Rightarrow> int list \<Rightarrow> int" where
  "max_element x [] = x"
| "max_element x (y # ys) = max_element (if x < y then y else x) ys"

text \<open>
  \<open>init_metrics\<close> (lines 94--131), called by the constructor. \<open>_num_blocks\<close> is the
  \<open>int\<close> converted from \<open>blockspec().size()\<close>, and the loop \<open>for (int bi = 0; bi <
  _num_blocks; ++bi)\<close> visits the block indices below it, none when it is not positive.
  The product of the two block sizes is computed in the pattern's unsigned size type, whose
  width is a multiple of 32 bits, and converted to \<open>int\<close>; the results of \<open>std::count\<close>
  are converted to \<open>int\<close>. With no unit in the team the source dereferences the end
  iterator, which ends the model with \<open>Out_of_bounds\<close>.
\<close>

definition init_metrics :: "pattern \<Rightarrow> failure + PatternMetrics" where
  "init_metrics p =
     (let num_blocks = int32 (int (blockspec_size p));
          nunits = teamspec_size p
      in case count_unit_blocks p [0..<nat num_blocks] (replicate nunits 0) of
           Inl e \<Rightarrow> Inl e
         | Inr unit_blocks \<Rightarrow>
             (case unit_blocks of
                [] \<Rightarrow> Inl Out_of_bounds
              | b # bs \<Rightarrow>
                  (let block_size = int32 (int (blocksize p 0 * blocksize p 1));
                       min_blocks = min_element b bs;
                       max_blocks = max_element b bs;
                       num_bal_units = int32 (int (count_list unit_blocks min_blocks));
                       num_imb_units = (if min_blocks = max_blocks then 0
                                        else int32 (int (count_list unit_blocks max_blocks)));
                       min_elements = int32 (min_blocks * block_size);
                       max_elements = int32 (max_blocks * block_size)
                   in Inr \<lparr>m_unit_blocks = unit_blocks,
                           m_num_blocks = num_blocks,
                           m_block_size = block_size,
                           m_min_blocks = min_blocks,
                           m_max_blocks = max_blocks,
                           m_num_imb_units = num_imb_units,
                           m_num_bal_units = num_bal_units,
                           m_imb_factor = float_div (float_of_int max_elements)
                                                    (float_of_int min_elements)\<rparr>)))"

text \<open>The accessors (lines 28--88).\<close>

definition num_blocks :: "PatternMetrics \<Rightarrow> int" where
  "num_blocks m = m_num_blocks m"

definition imbalance_factor :: "PatternMetrics \<Rightarrow> float_value" where
  "imbalance_factor m = m_imb_factor m"

definition min_blocks_per_unit :: "PatternMetrics \<Rightarrow> int" where
  "min_blocks_per_unit m = m_min_blocks m"

definition min_elements_per_unit :: "PatternMetrics \<Rightarrow> int" where
  "min_elements_per_unit m = int32 (m_min_blocks m * m_block_size m)"

definition max_blocks_per_unit :: "PatternMetrics \<Rightarrow> int" where
  "max_blocks_per_unit m = m_max_blocks m"

definition max_elements_per_unit :: "PatternMetrics \<Rightarrow> int" where
  "max_elements_per_unit m = int32 (m_max_blocks m * m_block_size m)"

definition num_balanced_units :: "PatternMetrics \<Rightarrow> int" where
  "num_balanced_units m = m_num_bal_units m"

definition num_imbalanced_units :: "PatternMetrics \<Rightarrow> int" where
  "num_imbalanced_units m = m_num_imb_units m"

definition unit_local_blocks :: "PatternMetrics \<Rightarrow> nat \<Rightarrow> int" where
  "unit_local_blocks m u = m_unit_blocks m ! u"

text \<open>
  The number of pattern elements mapped to a unit, written from the words of the accessors'
  doc comments: the coordinates within the pattern's extents that \<open>unit_at\<close> sends to
  \<open>u\<close>.
\<close>

definition elements_of_unit :: "pattern \<Rightarrow> nat \<Rightarrow> nat" where
  "elements_of_unit p u =
     length (filter (\<lambda>c. unit_at p c = u)
               (List.product [0..<fst (pattern_extents p)] [0..<snd (pattern_extents p)]))"

text \<open>
  Modelled from the spec: the rank-2 pattern with distribution \<open>(NONE, BLOCKED)\<close> of the
  extents \<open>E0 \<times> E1\<close> over \<open>U\<close> units. Dimension 0 is not split; in dimension 1 the block
  extent is \<open>ceil(E1 / U)\<close>, the block coordinate of column \<open>j\<close> is \<open>j / ceil(E1 / U)\<close>
  and names the owning unit, and "the last block's extent" is what remains of \<open>E1\<close>. The
  blocks are the non-empty ones.
\<close>

definition blocked_pattern :: "nat \<Rightarrow> nat \<Rightarrow> nat \<Rightarrow> pattern" where
  "blocked_pattern E0 E1 U =
     (let bs = (E1 + U - 1) div U
      in \<lparr>blockspec_size = (E1 + bs - 1) div bs,
          teamspec_size = U,
          block_offset = (\<lambda>bi. (0, bi * bs)),
          unit_at = (\<lambda>c. snd c div bs),
          blocksize = (\<lambda>d. if d = 0 then E0 else bs),
          pattern_extents = (E0, E1)\<rparr>)"

text \<open>
  Modelled from the spec: the rank-2 pattern with distribution \<open>(NONE, BLOCKCYCLIC(k))\<close>
  of the extents \<open>E0 \<times> E1\<close> over \<open>U\<close> units (\<open>CYCLIC\<close> is \<open>BLOCKCYCLIC(1)\<close>). In
  dimension 1 the block index of column \<open>j\<close> is \<open>j / k\<close> and the block coordinate, which
  names the owning unit, is the block index modulo \<open>U\<close>.
\<close>

definition blockcyclic_pattern :: "nat \<Rightarrow> nat \<Rightarrow> nat \<Rightarrow> nat \<Rightarrow> pattern" where
  "blockcyclic_pattern E0 E1 k U =
     \<lparr>blockspec_size = (E1 + k - 1) div k,
      teamspec_size = U,
      block_offset = (\<lambda>bi. (0, bi * k)),
      unit_at = (\<lambda>c. (snd c div k) mod U),
      blocksize = (\<lambda>d. if d = 0 then E0 else k),
      pattern_extents = (E0, E1)\<rparr>"

section \<open>The collective reduction: proofs\<close>

subsection \<open>The combiner and the all-reduce on payloads\<close>

lemma accumulate_local_Nil:
  "accumulate_local dflt f [] = \<lparr>value = dflt, valid = False\<rparr>"
  by (simp add: accumulate_local_def)

lemma accumulate_local_nonempty:
  "l \<noteq> [] \<Longrightarrow> accumulate_local dflt f l = \<lparr>value = local_fold f l, valid = True\<rparr>"
  by (cases l) (simp_all add: accumulate_local_def local_fold_def)

lemma custom_fn_records:
  "accumulate_custom_fn f \<lparr>value = a, valid = True\<rparr> \<lparr>value = b, valid = True\<rparr>
     = \<lparr>value = f a b, valid = True\<rparr>"
  "accumulate_custom_fn f \<lparr>value = a, valid = True\<rparr> \<lparr>value = b, valid = False\<rparr>
     = \<lparr>value = a, valid = True\<rparr>"
  "accumulate_custom_fn f \<lparr>value = a, valid = False\<rparr> p = p"
  by (simp_all add: accumulate_custom_fn_def)

text \<open>When no unit has a local element the payload that comes back is the invalid one.\<close>

lemma allreduce_custom_all_empty:
  "filter (\<lambda>l. l \<noteq> []) (r # rs) = [] \<Longrightarrow>
   dart_allreduce (accumulate_custom_fn f) (accumulate_local dflt f r)
     (map (accumulate_local dflt f) rs)
     = \<lparr>value = dflt, valid = False\<rparr>"
proof (induction rs arbitrary: r)
  case Nil
  then show ?case by (simp add: accumulate_local_Nil split: if_splits)
next
  case (Cons d ds)
  from Cons.prems have r: "r = []" and rest: "filter (\<lambda>l. l \<noteq> []) (d # ds) = []"
    by (simp_all split: if_splits)
  show ?case
    using Cons.IH [OF rest] r
    by (simp add: accumulate_local_Nil custom_fn_records)
qed

text \<open>
  Otherwise the payload is valid and its value is the all-reduce, with the user's
  operation, of the folds of the units that have elements.
\<close>

lemma allreduce_custom_some_valid:
  "filter (\<lambda>l. l \<noteq> []) (r # rs) = c # cs \<Longrightarrow>
   dart_allreduce (accumulate_custom_fn f) (accumulate_local dflt f r)
     (map (accumulate_local dflt f) rs)
     = \<lparr>value = dart_allreduce f (local_fold f c) (map (local_fold f) cs), valid = True\<rparr>"
proof (induction rs arbitrary: r c cs)
  case Nil
  then show ?case by (simp add: accumulate_local_nonempty split: if_splits)
next
  case (Cons d ds)
  show ?case
  proof (cases "r = []")
    case True
    with Cons.prems have "filter (\<lambda>l. l \<noteq> []) (d # ds) = c # cs" by simp
    from Cons.IH [OF this] True show ?thesis
      by (simp add: accumulate_local_Nil custom_fn_records)
  next
    case False
    with Cons.prems have c: "c = r" and rest: "filter (\<lambda>l. l \<noteq> []) (d # ds) = cs"
      by simp_all
    show ?thesis
    proof (cases cs)
      case Nil
      with rest have "filter (\<lambda>l. l \<noteq> []) (d # ds) = []" by simp
      from allreduce_custom_all_empty [OF this, of f dflt] False c Nil show ?thesis
        by (simp add: accumulate_local_nonempty custom_fn_records)
    next
      case (Cons c' cs')
      with rest have "filter (\<lambda>l. l \<noteq> []) (d # ds) = c' # cs'" by simp
      from Cons.IH [OF this] False c Cons show ?thesis
        by (simp add: accumulate_local_nonempty custom_fn_records)
    qed
  qed
qed

subsection \<open>The two paths of \<open>accumulate\<close>\<close>

lemma accumulate_custom_path:
  "\<not> (non_empty \<and> dop \<noteq> DART_OP_UNDEFINED \<and> dtype \<noteq> DART_TYPE_UNDEFINED) \<Longrightarrow>
   accumulate dflt dop dtype predef r rs init f non_empty =
     (let g = dart_allreduce (accumulate_custom_fn f) (accumulate_local dflt f r)
                (map (accumulate_local dflt f) rs)
      in (f init (value g),
          [Dart_type_create_custom, Dart_op_create, Dart_allreduce_custom,
           Dart_op_destroy, Dart_type_destroy] @
          (if valid g then [] else [Dash_log_error ''Found invalid reduction value!''])))"
  by (auto simp: accumulate_def Let_def)

lemma accumulate_native_path:
  "non_empty \<and> dop \<noteq> DART_OP_UNDEFINED \<and> dtype \<noteq> DART_TYPE_UNDEFINED \<Longrightarrow>
   accumulate dflt dop dtype predef r rs init f non_empty =
     (f init (dart_allreduce (predef dop) (value (accumulate_local dflt f r))
                (map (\<lambda>l. value (accumulate_local dflt f l)) rs)),
      [Dart_allreduce_native dtype dop])"
  by (simp add: accumulate_def Let_def)

lemma accumulate_local_value:
  "value (accumulate_local dflt f l) = (if l = [] then dflt else local_fold f l)"
  by (cases l) (simp_all add: accumulate_local_def local_fold_def)

text \<open>
  Claim C1, as stated: for every team, every operation and every unit's local range,
  \<open>accumulate\<close> returns \<open>binary_op(init, combined)\<close>, where the contribution of a unit
  is the left fold of its local elements that starts from the first local element and
  \<open>combined\<close> is the all-reduce of these contributions. With \<open>min\<close> on integers, the
  \<open>non_empty\<close> hint set, unit 0 holding \<open>[5]\<close>, unit 1 holding nothing and \<open>init = 9\<close>,
  the native all-reduce takes the value-initialised \<open>int{} = 0\<close> of unit 1 as a
  contribution and the source returns 0; the only fold there is, 5, gives
  \<open>min(9, 5) = 5\<close>.
\<close>

theorem accumulate_is_fold_then_allreduce_counterexample:
  "fst (accumulate (0::int) DART_OP_MIN DART_TYPE_INT dart_predefined_int [5] [[]] 9 min True) = 0
   \<and> min (9::int) (dart_allreduce min (local_fold min [5]) (map (local_fold min) [])) = 5"
  by (simp add: accumulate_def accumulate_local_def local_fold_def)

text \<open>
  Claim C1, amended: \<open>accumulate\<close> returns \<open>binary_op(init, combined)\<close>, where
  \<^item> on the native path (the \<open>non_empty\<close> hint set, a recognised operation, a primitive value
    type) \<open>combined\<close> is the all-reduce, with the predefined operation, of one value per
    unit: the left fold of its local elements from the first one for a unit that has
    elements, the value-initialised \<open>ValueType{}\<close> for a unit that has none;
  \<^item> so on the native path, when every unit has an element and the predefined operation
    computes \<open>binary_op\<close>, \<open>combined\<close> is the all-reduce with \<open>binary_op\<close> of the units'
    left folds;
  \<^item> on the custom path, when some unit has an element, \<open>combined\<close> is the all-reduce with
    \<open>binary_op\<close> of the left folds of the units that have elements;
  \<^item> on the custom path, when no unit has an element, \<open>combined\<close> is \<open>ValueType{}\<close>.
\<close>

theorem accumulate_is_fold_then_allreduce:
  "(non_empty \<and> dop \<noteq> DART_OP_UNDEFINED \<and> dtype \<noteq> DART_TYPE_UNDEFINED \<longrightarrow>
      fst (accumulate dflt dop dtype predef r rs init binary_op non_empty) =
        binary_op init
          (dart_allreduce (predef dop) (if r = [] then dflt else local_fold binary_op r)
             (map (\<lambda>l. if l = [] then dflt else local_fold binary_op l) rs)))
   \<and> (non_empty \<and> dop \<noteq> DART_OP_UNDEFINED \<and> dtype \<noteq> DART_TYPE_UNDEFINED
        \<and> (\<forall>l \<in> set (r # rs). l \<noteq> []) \<and> predef dop = binary_op \<longrightarrow>
      fst (accumulate dflt dop dtype predef r rs init binary_op non_empty) =
        binary_op init
          (dart_allreduce binary_op (local_fold binary_op r) (map (local_fold binary_op) rs)))
   \<and> (\<not> (non_empty \<and> dop \<noteq> DART_OP_UNDEFINED \<and> dtype \<noteq> DART_TYPE_UNDEFINED)
        \<and> (\<exists>l \<in> set (r # rs). l \<noteq> []) \<longrightarrow>
      (\<exists>c cs. filter (\<lambda>l. l \<noteq> []) (r # rs) = c # cs \<and>
         fst (accumulate dflt dop dtype predef r rs init binary_op non_empty) =
           binary_op init
             (dart_allreduce binary_op (local_fold binary_op c) (map (local_fold binary_op) cs))))
   \<and> (\<not> (non_empty \<and> dop \<noteq> DART_OP_UNDEFINED \<and> dtype \<noteq> DART_TYPE_UNDEFINED)
        \<and> (\<forall>l \<in> set (r # rs). l = []) \<longrightarrow>
      fst (accumulate dflt dop dtype predef r rs init binary_op non_empty) =
        binary_op init dflt)"
proof (intro conjI impI)
  assume native: "non_empty \<and> dop \<noteq> DART_OP_UNDEFINED \<and> dtype \<noteq> DART_TYPE_UNDEFINED"
  show "fst (accumulate dflt dop dtype predef r rs init binary_op non_empty) =
        binary_op init
          (dart_allreduce (predef dop) (if r = [] then dflt else local_fold binary_op r)
             (map (\<lambda>l. if l = [] then dflt else local_fold binary_op l) rs))"
    by (simp only: accumulate_native_path [OF native] fst_conv accumulate_local_value)
next
  assume a: "non_empty \<and> dop \<noteq> DART_OP_UNDEFINED \<and> dtype \<noteq> DART_TYPE_UNDEFINED
        \<and> (\<forall>l \<in> set (r # rs). l \<noteq> []) \<and> predef dop = binary_op"
  then have native: "non_empty \<and> dop \<noteq> DART_OP_UNDEFINED \<and> dtype \<noteq> DART_TYPE_UNDEFINED"
    by simp
  from a have all: "\<forall>l \<in> set (r # rs). l \<noteq> []" by simp
  from a have op: "predef dop = binary_op" by simp
  from all have m: "map (\<lambda>l. value (accumulate_local dflt binary_op l)) rs
                    = map (local_fold binary_op) rs"
    by (simp add: accumulate_local_nonempty)
  from all have v: "value (accumulate_local dflt binary_op r) = local_fold binary_op r"
    by (simp add: accumulate_local_nonempty)
  show "fst (accumulate dflt dop dtype predef r rs init binary_op non_empty) =
      binary_op init
        (dart_allreduce binary_op (local_fold binary_op r) (map (local_fold binary_op) rs))"
    by (simp only: accumulate_native_path [OF native] fst_conv op m v)
next
  assume a: "\<not> (non_empty \<and> dop \<noteq> DART_OP_UNDEFINED \<and> dtype \<noteq> DART_TYPE_UNDEFINED)
        \<and> (\<exists>l \<in> set (r # rs). l \<noteq> [])"
  then have custom: "\<not> (non_empty \<and> dop \<noteq> DART_OP_UNDEFINED \<and> dtype \<noteq> DART_TYPE_UNDEFINED)"
    by (rule conjunct1)
  from a have some: "\<exists>l \<in> set (r # rs). l \<noteq> []"
    by (rule conjunct2)
  from some have "filter (\<lambda>l. l \<noteq> []) (r # rs) \<noteq> []"
    by (simp only: filter_empty_conv) blast
  then obtain c cs where flt: "filter (\<lambda>l. l \<noteq> []) (r # rs) = c # cs"
    by (cases "filter (\<lambda>l. l \<noteq> []) (r # rs)") blast+
  from allreduce_custom_some_valid [OF flt, of binary_op dflt] custom
  have "fst (accumulate dflt dop dtype predef r rs init binary_op non_empty) =
      binary_op init
        (dart_allreduce binary_op (local_fold binary_op c) (map (local_fold binary_op) cs))"
    by (simp add: accumulate_custom_path)
  with flt show "\<exists>c cs. filter (\<lambda>l. l \<noteq> []) (r # rs) = c # cs \<and>
         fst (accumulate dflt dop dtype predef r rs init binary_op non_empty) =
           binary_op init
             (dart_allreduce binary_op (local_fold binary_op c) (map (local_fold binary_op) cs))"
    by blast
next
  assume a: "\<not> (non_empty \<and> dop \<noteq> DART_OP_UNDEFINED \<and> dtype \<noteq> DART_TYPE_UNDEFINED)
        \<and> (\<forall>l \<in> set (r # rs). l = [])"
  then have custom: "\<not> (non_empty \<and> dop \<noteq> DART_OP_UNDEFINED \<and> dtype \<noteq> DART_TYPE_UNDEFINED)"
    by (rule conjunct1)
  from a have "\<forall>l \<in> set (r # rs). l = []"
    by (rule conjunct2)
  then have "filter (\<lambda>l. l \<noteq> []) (r # rs) = []"
    by (simp only: filter_empty_conv) blast
  from allreduce_custom_all_empty [OF this, of binary_op dflt] custom
  show "fst (accumulate dflt dop dtype predef r rs init binary_op non_empty) =
        binary_op init dflt"
    by (simp add: accumulate_custom_path)
qed

text \<open>
  The sum on integers with \<open>init = 10\<close>: three units, the middle one without elements,
  through the custom path; two units with elements through the native path, where the
  predefined sum is the operation; the minimum with an empty unit through the native path;
  and the sum over two units without elements through the custom path.
\<close>

theorem accumulate_is_fold_then_allreduce_witness:
  "fst (accumulate (0::int) DART_OP_SUM DART_TYPE_INT dart_predefined_int
          [1, 2, 3] [[], [4, 5]] 10 (+) False) = 10 + (((1 + 2) + 3) + (4 + 5))
   \<and> dart_predefined_int DART_OP_SUM = (+)
   \<and> fst (accumulate (0::int) DART_OP_SUM DART_TYPE_INT dart_predefined_int
          [1, 2, 3] [[4, 5]] 10 (+) True) = 10 + (((1 + 2) + 3) + (4 + 5))
   \<and> fst (accumulate (0::int) DART_OP_MIN DART_TYPE_INT dart_predefined_int
          [5] [[]] 9 min True) = min 9 (min 5 0)
   \<and> fst (accumulate (0::int) DART_OP_SUM DART_TYPE_INT dart_predefined_int
          [] [[]] 10 (+) False) = 10 + 0"
proof -
  have op: "dart_predefined_int DART_OP_SUM = (+)"
    by (simp add: fun_eq_iff)
  from accumulate_is_fold_then_allreduce
    [of False DART_OP_SUM DART_TYPE_INT "0::int" dart_predefined_int "[1, 2, 3]" "[[], [4, 5]]"
        10 "(+)"]
  have custom: "fst (accumulate (0::int) DART_OP_SUM DART_TYPE_INT dart_predefined_int
          [1, 2, 3] [[], [4, 5]] 10 (+) False) = 10 + (((1 + 2) + 3) + (4 + 5))"
    by (auto simp: local_fold_def)
  from accumulate_is_fold_then_allreduce
    [of True DART_OP_SUM DART_TYPE_INT "0::int" dart_predefined_int "[1, 2, 3]" "[[4, 5]]"
        10 "(+)"] op
  have native: "fst (accumulate (0::int) DART_OP_SUM DART_TYPE_INT dart_predefined_int
          [1, 2, 3] [[4, 5]] 10 (+) True) = 10 + (((1 + 2) + 3) + (4 + 5))"
    by (auto simp: local_fold_def)
  from accumulate_is_fold_then_allreduce
    [of True DART_OP_MIN DART_TYPE_INT "0::int" dart_predefined_int "[5]" "[[]]" 9 min]
  have hint: "fst (accumulate (0::int) DART_OP_MIN DART_TYPE_INT dart_predefined_int
          [5] [[]] 9 min True) = min 9 (min 5 0)"
    by (simp add: local_fold_def)
  from accumulate_is_fold_then_allreduce
    [of False DART_OP_SUM DART_TYPE_INT "0::int" dart_predefined_int "[]" "[[]]" 10 "(+)"]
  have none: "fst (accumulate (0::int) DART_OP_SUM DART_TYPE_INT dart_predefined_int
          [] [[]] 10 (+) False) = 10 + 0"
    by simp
  from op custom native hint none show ?thesis by simp
qed

text \<open>
  Claim C2, as stated: when every unit's local range is empty, \<open>accumulate\<close> returns
  \<open>init\<close> unchanged for every \<open>binary_op\<close> and every \<open>init\<close>, and a diagnostic is
  logged. With the product on integers, two units without elements and \<open>init = 5\<close> the
  source returns \<open>5 * int{} = 0\<close> on the custom path; with the \<open>non_empty\<close> hint set it
  returns 0 through the native path and logs nothing.
\<close>

theorem accumulate_all_empty_counterexample:
  "fst (accumulate (0::int) DART_OP_PROD DART_TYPE_INT dart_predefined_int [] [[]] 5 (*) False)
     \<noteq> 5
   \<and> accumulate (0::int) DART_OP_PROD DART_TYPE_INT dart_predefined_int [] [[]] 5 (*) True
     = (0, [Dart_allreduce_native DART_TYPE_INT DART_OP_PROD])"
  by (simp add: accumulate_def accumulate_local_def accumulate_custom_fn_def)

text \<open>
  Claim C2, amended: when every unit's local range is empty, \<open>accumulate\<close> returns
  \<open>binary_op(init, v)\<close> and the call returns. On the custom path \<open>v\<close> is the
  value-initialised \<open>ValueType{}\<close> and the diagnostic is logged once, after the transport
  calls. On the native path (the \<open>non_empty\<close> hint set against the facts) \<open>v\<close> is the native
  all-reduce of the \<open>ValueType{}\<close> of every unit and nothing is logged.
\<close>

theorem accumulate_all_empty:
  assumes empty: "\<forall>l \<in> set (r # rs). l = []"
  shows "accumulate dflt dop dtype predef r rs init binary_op non_empty =
           (if non_empty \<and> dop \<noteq> DART_OP_UNDEFINED \<and> dtype \<noteq> DART_TYPE_UNDEFINED
            then (binary_op init
                    (dart_allreduce (predef dop) dflt (replicate (length rs) dflt)),
                  [Dart_allreduce_native dtype dop])
            else (binary_op init dflt,
                  [Dart_type_create_custom, Dart_op_create, Dart_allreduce_custom,
                   Dart_op_destroy, Dart_type_destroy,
                   Dash_log_error ''Found invalid reduction value!'']))"
proof (cases "non_empty \<and> dop \<noteq> DART_OP_UNDEFINED \<and> dtype \<noteq> DART_TYPE_UNDEFINED")
  case True
  from empty have r: "r = []" by simp
  from empty have "map (\<lambda>l. value (accumulate_local dflt binary_op l)) rs
                   = map (\<lambda>l. dflt) rs"
    by (auto simp: accumulate_local_Nil)
  then have m: "map (\<lambda>l. value (accumulate_local dflt binary_op l)) rs
                = replicate (length rs) dflt"
    by (simp only: map_replicate_const)
  have v: "value (accumulate_local dflt binary_op []) = dflt"
    by (simp add: accumulate_local_Nil)
  have "accumulate dflt dop dtype predef r rs init binary_op non_empty =
          (binary_op init (dart_allreduce (predef dop) dflt (replicate (length rs) dflt)),
           [Dart_allreduce_native dtype dop])"
    by (simp only: accumulate_native_path [OF True] r m v)
  with True show ?thesis by simp
next
  case False
  from empty have "filter (\<lambda>l. l \<noteq> []) (r # rs) = []"
    by (simp only: filter_empty_conv) blast
  from allreduce_custom_all_empty [OF this, of binary_op dflt] False show ?thesis
    by (simp add: accumulate_custom_path)
qed

text \<open>
  With the sum, whose neutral element is \<open>int{} = 0\<close>, the result is \<open>init\<close> on both
  paths.
\<close>

theorem accumulate_all_empty_witness:
  "accumulate (0::int) DART_OP_SUM DART_TYPE_INT dart_predefined_int [] [[], []] 7 (+) False =
     (7, [Dart_type_create_custom, Dart_op_create, Dart_allreduce_custom,
          Dart_op_destroy, Dart_type_destroy,
          Dash_log_error ''Found invalid reduction value!''])
   \<and> accumulate (0::int) DART_OP_SUM DART_TYPE_INT dart_predefined_int [] [[], []] 7 (+) True =
     (7, [Dart_allreduce_native DART_TYPE_INT DART_OP_SUM])"
  using accumulate_all_empty
    [of "[]" "[[], []]" "0::int" DART_OP_SUM DART_TYPE_INT dart_predefined_int 7 "(+)" False]
    accumulate_all_empty
    [of "[]" "[[], []]" "0::int" DART_OP_SUM DART_TYPE_INT dart_predefined_int 7 "(+)" True]
  by (simp add: numeral_2_eq_2)

text \<open>
  Claim C3, as stated: with a recognised reduction on a primitive value type the native
  all-reduce is used. The sum on \<open>int\<close> with \<open>non_empty = false\<close>, and the same sum
  through the global-range overload, go through the custom payload.
\<close>

theorem accumulate_native_counterexample:
  "snd (accumulate (0::int) DART_OP_SUM DART_TYPE_INT dart_predefined_int [1] [[2]] 0 (+) False) =
     [Dart_type_create_custom, Dart_op_create, Dart_allreduce_custom,
      Dart_op_destroy, Dart_type_destroy]
   \<and> snd (accumulate_global (0::int) DART_OP_SUM DART_TYPE_INT dart_predefined_int [1] [[2]] 0 (+)) =
     [Dart_type_create_custom, Dart_op_create, Dart_allreduce_custom,
      Dart_op_destroy, Dart_type_destroy]"
  by (simp add: accumulate_global_def accumulate_def accumulate_local_def accumulate_custom_fn_def)

text \<open>
  Claim C3, amended: the native all-reduce (one \<open>dart_allreduce\<close> on the raw values with
  the predefined operation, and nothing else) is used exactly when the \<open>non_empty\<close> hint is
  true, the operation is a recognised reduction and the value type maps to a transport
  primitive; otherwise the custom payload is used. The global-range overload always
  uses the custom payload.
\<close>

theorem accumulate_native_iff_hint:
  "(snd (accumulate dflt dop dtype predef r rs init binary_op non_empty) =
      [Dart_allreduce_native dtype dop])
     = (non_empty \<and> dop \<noteq> DART_OP_UNDEFINED \<and> dtype \<noteq> DART_TYPE_UNDEFINED)
   \<and> (Dart_allreduce_custom \<in> set (snd (accumulate dflt dop dtype predef r rs init binary_op non_empty)))
     = (\<not> (non_empty \<and> dop \<noteq> DART_OP_UNDEFINED \<and> dtype \<noteq> DART_TYPE_UNDEFINED))
   \<and> Dart_allreduce_custom \<in> set (snd (accumulate_global dflt dop dtype predef r rs init binary_op))
   \<and> Dart_allreduce_native dtype dop
        \<notin> set (snd (accumulate_global dflt dop dtype predef r rs init binary_op))"
proof (cases "non_empty \<and> dop \<noteq> DART_OP_UNDEFINED \<and> dtype \<noteq> DART_TYPE_UNDEFINED")
  case True
  then show ?thesis
    by (simp add: accumulate_native_path accumulate_global_def accumulate_custom_path Let_def)
next
  case False
  then show ?thesis
    by (simp add: accumulate_global_def accumulate_custom_path Let_def)
qed

theorem accumulate_native_iff_hint_witness:
  "snd (accumulate (0::int) DART_OP_SUM DART_TYPE_INT dart_predefined_int [1] [[2]] 0 (+) True) =
      [Dart_allreduce_native DART_TYPE_INT DART_OP_SUM]"
  using accumulate_native_iff_hint
    [of "0::int" DART_OP_SUM DART_TYPE_INT dart_predefined_int "[1]" "[[2]]" 0 "(+)" True]
  by simp

text \<open>
  Claim C4. The combiner on \<open>(value, valid)\<close> payloads applies the user's operation only
  when both operands are valid; with one valid operand the result is that operand, value
  and flag; with none the accumulator is unchanged. So a unit with an empty local range,
  wherever it stands in the team, contributes nothing to the combined payload.
\<close>

theorem custom_combiner_skips_invalid:
  "accumulate_custom_fn fn \<lparr>value = a, valid = True\<rparr> \<lparr>value = b, valid = True\<rparr>
      = \<lparr>value = fn a b, valid = True\<rparr>
   \<and> accumulate_custom_fn fn \<lparr>value = a, valid = True\<rparr> \<lparr>value = b, valid = False\<rparr>
      = \<lparr>value = a, valid = True\<rparr>
   \<and> accumulate_custom_fn fn \<lparr>value = a, valid = False\<rparr> \<lparr>value = b, valid = True\<rparr>
      = \<lparr>value = b, valid = True\<rparr>
   \<and> accumulate_custom_fn fn \<lparr>value = a, valid = False\<rparr> \<lparr>value = b, valid = False\<rparr>
      = \<lparr>value = b, valid = False\<rparr>
   \<and> dart_allreduce (accumulate_custom_fn fn) (accumulate_local dflt fn r)
        (map (accumulate_local dflt fn) (rs @ [] # rs'))
      = dart_allreduce (accumulate_custom_fn fn) (accumulate_local dflt fn r)
        (map (accumulate_local dflt fn) (rs @ rs'))
   \<and> dart_allreduce (accumulate_custom_fn fn) (accumulate_local dflt fn [])
        (map (accumulate_local dflt fn) (r # rs))
      = dart_allreduce (accumulate_custom_fn fn) (accumulate_local dflt fn r)
        (map (accumulate_local dflt fn) rs)"
proof -
  have ins: "dart_allreduce (accumulate_custom_fn fn) (accumulate_local dflt fn r)
        (map (accumulate_local dflt fn) (rs @ [] # rs'))
      = dart_allreduce (accumulate_custom_fn fn) (accumulate_local dflt fn r)
        (map (accumulate_local dflt fn) (rs @ rs'))"
  proof (induction rs arbitrary: r)
    case Nil
    show ?case
    proof (cases rs')
      case Nil
      then show ?thesis
        by (cases r) (simp_all add: accumulate_local_def custom_fn_records)
    next
      case (Cons d ds)
      then show ?thesis by (simp add: accumulate_local_Nil custom_fn_records)
    qed
  next
    case (Cons d ds)
    then show ?case by simp
  qed
  show ?thesis
    using ins by (simp add: custom_fn_records accumulate_local_Nil)
qed

text \<open>Units 0 and 2 hold elements, unit 1 does not: the sum of the two folds comes back.\<close>

theorem custom_combiner_skips_invalid_witness:
  "dart_allreduce (accumulate_custom_fn (+)) (accumulate_local (0::int) (+) [1, 2])
     (map (accumulate_local 0 (+)) ([] @ [] # [[4]]))
     = \<lparr>value = 7, valid = True\<rparr>"
  using custom_combiner_skips_invalid [of "(+)" _ _ "0::int" "[1, 2]" "[]" "[[4]]"]
  by (simp add: accumulate_local_def accumulate_custom_fn_def)

section \<open>Asynchronous references: proofs\<close>

text \<open>
  Claim C7. For a \<open>GlobAsyncRef\<close> \<open>r\<close> and a byte offset \<open>offs\<close>, \<open>r.member(offs)\<close>
  and the pointer-to-member overload at the member's offset yield a reference whose global
  pointer is the one of \<open>r\<close> advanced by \<open>offs\<close> bytes (same segment, same unit), whose
  locality flag is the one of \<open>r\<close>, and whose cached local pointer is, when \<open>r\<close> is local,
  the local pointer of \<open>r\<close> advanced by \<open>offs\<close> bytes (and \<open>nullptr\<close> otherwise).
\<close>

theorem member_advances_pointers:
  "\<exists>m. member r offs = Inr m \<and> member_ptr r offs = Inr m
       \<and> segid (gptr m) = segid (gptr r) \<and> unitid (gptr m) = unitid (gptr r)
       \<and> offset (gptr m) = offset (gptr r) + offs
       \<and> is_local m = is_local r
       \<and> lptr m = (if is_local r then lptr r + offs else 0)"
  by (simp add: member_ptr_def member_def GlobAsyncRef_of_parent_def dart_gptr_incaddr_def)

text \<open>A local reference at native address 4096, member at byte offset 8.\<close>

theorem member_advances_pointers_witness:
  "member \<lparr>gptr = \<lparr>segid = 3, unitid = 0, offset = 64\<rparr>, lptr = 4096, is_local = True\<rparr> 8
     = Inr \<lparr>gptr = \<lparr>segid = 3, unitid = 0, offset = 72\<rparr>, lptr = 4104, is_local = True\<rparr>"
  using member_advances_pointers
    [of "\<lparr>gptr = \<lparr>segid = 3, unitid = 0, offset = 64\<rparr>, lptr = 4096, is_local = True\<rparr>" 8]
  by (auto simp: member_def GlobAsyncRef_of_parent_def dart_gptr_incaddr_def)

text \<open>
  Claim C10. \<open>flush()\<close> on a reference whose global pointer is the null sentinel, such as
  a default-initialised one, makes no transport call and returns; the flush is issued
  exactly when the global pointer is not null, and whether the reference is local plays
  no part.
\<close>

theorem flush_iff_gptr_not_null:
  "flush dart_flush GlobAsyncRef_default calls = (calls, None)
   \<and> fst (flush dart_flush r calls)
       = (if gptr r = DART_GPTR_NULL then calls else calls @ [Dart_flush (gptr r)])
   \<and> (snd (flush dart_flush r calls) = None)
       = (gptr r = DART_GPTR_NULL \<or> dart_flush (gptr r) = DART_OK)
   \<and> flush dart_flush (r\<lparr>is_local := b, lptr := p\<rparr>) calls = flush dart_flush r calls"
  by (simp add: flush_def GlobAsyncRef_default_def DART_GPTR_ISNULL_def)

text \<open>A local reference with a non-null global pointer: the flush is issued.\<close>

theorem flush_iff_gptr_not_null_witness:
  "flush (\<lambda>g. DART_OK) \<lparr>gptr = \<lparr>segid = 3, unitid = 0, offset = 64\<rparr>, lptr = 4096, is_local = True\<rparr> []
     = ([Dart_flush \<lparr>segid = 3, unitid = 0, offset = 64\<rparr>], None)"
  using flush_iff_gptr_not_null
    [of "\<lambda>g. DART_OK" "[]" "\<lparr>gptr = \<lparr>segid = 3, unitid = 0, offset = 64\<rparr>, lptr = 4096, is_local = True\<rparr>"]
  by (simp add: prod_eq_iff DART_GPTR_NULL_def)

subsection \<open>Futures\<close>

text \<open>
  The transport as modelled delivers: a get into a destination, once waited for, leaves the
  element at that destination.
\<close>

lemma dart_get_handle_wait_delivers:
  "global_mem st g = Some v \<Longrightarrow>
   (case dart_get_handle st dest g of
      (st1, h) \<Rightarrow> (case dart_wait st1 h of
                     (ret, st2) \<Rightarrow> ret = DART_OK \<and> local_mem st2 dest = Some v))"
  by (simp add: dart_get_handle_def dart_wait_def Let_def)

text \<open>
  The constructor passes \<open>&_valptr\<close> as the destination, so the element \<open>v\<close> lands in
  the member \<open>_valptr\<close> itself, and \<open>get()\<close> then reads the cell at address \<open>v\<close>.
\<close>

lemma Future_get_reads_through_value:
  assumes "global_mem st g = Some v"
  shows "(case Future_ctor st self buf indet g of
           (st1, f) \<Rightarrow>
             map_sum id fst (Future_get st1 f) =
               (case ((local_mem st)(buf \<mapsto> indet, self \<mapsto> v)) v of
                  None \<Rightarrow> Inl Invalid_pointer
                | Some w \<Rightarrow> Inr w))"
  using assms
  by (simp add: Future_ctor_def Future_get_def Future_wait_def dart_get_handle_def
      dart_wait_def Let_def split: option.splits)

text \<open>
  Claim C5 says that a future made from a reference to \<open>arr[i]\<close> issues the get at once
  and that \<open>get()\<close> waits and returns the value stored at \<open>arr[i]\<close>. The source at the
  input below: \<open>arr[i]\<close> lives on unit 1 and holds 789, the future's member \<open>_valptr\<close> is
  at address 4096 and its buffer at 8192. After \<open>wait()\<close> the transfer is complete, but
  the value sits in the member \<open>_valptr\<close> and the buffer is untouched; \<open>get()\<close>
  dereferences 789 as a pointer.
\<close>

theorem Future_get_misses_value:
  "(case Future_of_GlobAsyncRef
           \<lparr>local_mem = Map.empty,
            global_mem = [\<lparr>segid = 1, unitid = 1, offset = 16\<rparr> \<mapsto> 789],
            handles = Map.empty, next_handle = 0\<rparr>
           4096 8192 0
           \<lparr>gptr = \<lparr>segid = 1, unitid = 1, offset = 16\<rparr>, lptr = 0, is_local = False\<rparr> of
      (st1, f) \<Rightarrow>
        Future_get st1 f = Inl Invalid_pointer
        \<and> (case Future_wait st1 f of
             Inl e \<Rightarrow> False
           | Inr (st2, f2) \<Rightarrow>
               completed f2 \<and> local_mem st2 4096 = Some 789 \<and> local_mem st2 8192 = Some 0))"
  by (simp add: Future_of_GlobAsyncRef_def Future_ctor_def Future_get_def Future_wait_def
      dart_get_handle_def dart_wait_def Let_def)

section \<open>Views: proofs\<close>

lemma sub_view_valid:
  "d < length (extents V) \<Longrightarrow> length (offsets V) = length (extents V) \<Longrightarrow> a \<le> b \<Longrightarrow>
   b \<le> extents V ! d \<Longrightarrow>
   sub_view d a b V = Some (V\<lparr>offsets := (offsets V)[d := offsets V ! d + a],
                               extents := (extents V)[d := b - a]\<rparr>)"
  by (simp add: sub_view_def)

text \<open>
  Claim C6. For a view \<open>V\<close>, two distinct dimensions \<open>d0 \<noteq> d1\<close> and valid ranges,
  \<open>sub<d0>(a, b, sub<d1>(c, d, V))\<close> and \<open>sub<d1>(c, d, sub<d0>(a, b, V))\<close> are both
  defined and have equal \<open>extents()\<close> and equal \<open>offsets()\<close>.
\<close>

theorem sub_view_commutes:
  assumes neq: "d0 \<noteq> d1"
    and len: "length (offsets V) = length (extents V)"
    and r0: "d0 < length (extents V)" "a \<le> b" "b \<le> extents V ! d0"
    and r1: "d1 < length (extents V)" "c \<le> d" "d \<le> extents V ! d1"
  shows "\<exists>V1 V2. Option.bind (sub_view d1 c d V) (sub_view d0 a b) = Some V1
           \<and> Option.bind (sub_view d0 a b V) (sub_view d1 c d) = Some V2
           \<and> extents V1 = extents V2 \<and> offsets V1 = offsets V2"
proof -
  let ?W1 = "V\<lparr>offsets := (offsets V)[d1 := offsets V ! d1 + c],
               extents := (extents V)[d1 := d - c]\<rparr>"
  let ?W0 = "V\<lparr>offsets := (offsets V)[d0 := offsets V ! d0 + a],
               extents := (extents V)[d0 := b - a]\<rparr>"
  have s1: "sub_view d1 c d V = Some ?W1"
    using len r1 by (simp add: sub_view_valid)
  have s0: "sub_view d0 a b V = Some ?W0"
    using len r0 by (simp add: sub_view_valid)
  have s01: "sub_view d0 a b ?W1 = Some (?W1\<lparr>offsets := (offsets ?W1)[d0 := offsets ?W1 ! d0 + a],
                               extents := (extents ?W1)[d0 := b - a]\<rparr>)"
    using neq len r0 by (intro sub_view_valid) simp_all
  have s10: "sub_view d1 c d ?W0 = Some (?W0\<lparr>offsets := (offsets ?W0)[d1 := offsets ?W0 ! d1 + c],
                               extents := (extents ?W0)[d1 := d - c]\<rparr>)"
    using neq len r1 by (intro sub_view_valid) simp_all
  show ?thesis
    using neq by (simp add: s1 s0 s01 s10 list_update_swap [of d0 d1])
qed

text \<open>The matrix of extents \<open>(8, 6)\<close>, rows \<open>[1, 3)\<close> and columns \<open>[2, 5)\<close>.\<close>

theorem sub_view_commutes_witness:
  "Option.bind (sub_view 1 2 5 \<lparr>offsets = [0, 0], extents = [8, 6]\<rparr>) (sub_view 0 1 3)
     = Some \<lparr>offsets = [1, 2], extents = [2, 3]\<rparr>
   \<and> Option.bind (sub_view 0 1 3 \<lparr>offsets = [0, 0], extents = [8, 6]\<rparr>) (sub_view 1 2 5)
     = Some \<lparr>offsets = [1, 2], extents = [2, 3]\<rparr>"
  using sub_view_commutes [of 0 1 "\<lparr>offsets = [0, 0], extents = [8, 6]\<rparr>" 1 3 2 5]
  by (simp add: sub_view_def)

section \<open>Pattern metrics: proofs\<close>

lemma int32_id: "- 2147483648 \<le> x \<Longrightarrow> x < 2147483648 \<Longrightarrow> int32 x = x"
  by (simp add: int32_def)

lemma nth_le_sum_list_int:
  "\<forall>x \<in> set xs. (0::int) \<le> x \<Longrightarrow> k < length xs \<Longrightarrow> xs ! k \<le> sum_list xs"
proof (induction xs arbitrary: k)
  case Nil
  then show ?case by simp
next
  case (Cons x xs)
  show ?case
  proof (cases k)
    case 0
    with Cons.prems show ?thesis by (simp add: sum_list_nonneg)
  next
    case (Suc j)
    with Cons.prems Cons.IH [of j] show ?thesis by simp
  qed
qed

lemma sum_list_update_int:
  "k < length xs \<Longrightarrow> sum_list (xs[k := x]) = sum_list xs + x - (xs ! k :: int)"
  by (induction xs arbitrary: k) (auto split: nat.splits)

text \<open>
  The loop over the blocks succeeds when every block's owner is a unit of the vector. When
  the counters are not negative and their sum plus the number of blocks still to visit
  fits an \<open>int\<close>, no increment wraps: the loop adds one per block in total, and adds to
  each unit the number of blocks it owns.
\<close>

lemma count_unit_blocks_counts:
  assumes "\<forall>bi \<in> set bis. unit_at p (block_offset p bi) < length ub"
    and "\<forall>x \<in> set ub. 0 \<le> x"
    and "sum_list ub + int (length bis) < 2147483648"
  shows "\<exists>ub'. count_unit_blocks p bis ub = Inr ub' \<and> length ub' = length ub
      \<and> sum_list ub' = sum_list ub + int (length bis)
      \<and> (\<forall>u < length ub. ub' ! u =
            ub ! u + int (length (filter (\<lambda>bi. unit_at p (block_offset p bi) = u) bis)))"
  using assms
proof (induction bis arbitrary: ub)
  case Nil
  then show ?case by simp
next
  case (Cons bi bis)
  let ?k = "unit_at p (block_offset p bi)"
  let ?ub = "ub[?k := int32 (ub ! ?k + 1)]"
  from Cons.prems have k: "?k < length ub" by simp
  from Cons.prems have nn: "\<forall>x \<in> set ub. 0 \<le> x" by simp
  from nn k have lo: "0 \<le> ub ! ?k" by simp
  from nth_le_sum_list_int [OF nn k] Cons.prems(3) have hi: "ub ! ?k + 1 < 2147483648"
    by simp
  from lo hi have inc: "int32 (ub ! ?k + 1) = ub ! ?k + 1"
    by (simp add: int32_id)
  have owners: "\<forall>bi \<in> set bis. unit_at p (block_offset p bi) < length ?ub"
    using Cons.prems(1) by simp
  have nn': "\<forall>x \<in> set ?ub. 0 \<le> x"
  proof
    fix x assume "x \<in> set ?ub"
    then have "x = int32 (ub ! ?k + 1) \<or> x \<in> set ub"
      using set_update_subset_insert [of ub ?k] by auto
    with nn lo inc show "0 \<le> x" by auto
  qed
  have s': "sum_list ?ub = sum_list ub + 1"
    using k by (simp add: sum_list_update_int inc)
  have bound': "sum_list ?ub + int (length bis) < 2147483648"
    using s' Cons.prems(3) by simp
  from Cons.IH [OF owners nn' bound'] obtain ub' where
    run: "count_unit_blocks p bis ?ub = Inr ub'" and
    len: "length ub' = length ub" and
    sum: "sum_list ub' = sum_list ?ub + int (length bis)" and
    cnt: "\<forall>u < length ub. ub' ! u =
            ?ub ! u + int (length (filter (\<lambda>bi. unit_at p (block_offset p bi) = u) bis))"
    by auto
  have "count_unit_blocks p (bi # bis) ub = Inr ub'"
    using k run by (simp add: Let_def)
  moreover have "sum_list ub' = sum_list ub + int (length (bi # bis))"
    using sum s' by simp
  moreover have "\<forall>u < length ub. ub' ! u =
      ub ! u + int (length (filter (\<lambda>bi. unit_at p (block_offset p bi) = u) (bi # bis)))"
    using cnt k inc by (auto simp: nth_list_update)
  ultimately show ?case using len by blast
qed

text \<open>
  Claim C9, as stated: for every rank-2 pattern the sum over all units of
  \<open>unit_local_blocks(u)\<close> equals \<open>num_blocks()\<close>, every block being attributed to one
  unit. The pattern of extents \<open>1 \<times> 2^31\<close> distributed \<open>CYCLIC\<close> over one unit has
  \<open>2^31\<close> blocks; the conversion of \<open>blockspec().size()\<close> to \<open>int\<close> gives
  \<open>_num_blocks = -2^31\<close>, the loop over the blocks does not run, and the sum is 0.
\<close>

theorem unit_blocks_sum_counterexample:
  "(case init_metrics (blockcyclic_pattern 1 2147483648 1 1) of
      Inl e \<Rightarrow> False
    | Inr m \<Rightarrow>
        (\<Sum>u\<leftarrow>[0..<teamspec_size (blockcyclic_pattern 1 2147483648 1 1)].
            unit_local_blocks m u) = 0
        \<and> num_blocks m = - 2147483648)
   \<and> blockspec_size (blockcyclic_pattern 1 2147483648 1 1) = 2147483648"
  by (simp add: init_metrics_def blockcyclic_pattern_def int32_def Let_def
      unit_local_blocks_def num_blocks_def)

text \<open>
  Claim C9, amended: for a rank-2 pattern with fewer than \<open>2^31\<close> blocks, whose team has
  a unit and whose \<open>unit_at\<close> names a unit of the team for the first element of every
  block, the construction of \<open>PatternMetrics\<close> succeeds, the sum over all units \<open>u\<close> of
  \<open>unit_local_blocks(u)\<close> equals \<open>num_blocks()\<close>, the number of blocks of the pattern,
  every block is counted for the owner of its first element, and \<open>unit_local_blocks(u)\<close>
  is not negative.
\<close>

theorem unit_blocks_sum_to_num_blocks:
  assumes units: "0 < teamspec_size p"
    and owner: "\<forall>bi < blockspec_size p. unit_at p (block_offset p bi) < teamspec_size p"
    and fits: "blockspec_size p < 2147483648"
  shows "\<exists>m. init_metrics p = Inr m
           \<and> (\<Sum>u\<leftarrow>[0..<teamspec_size p]. unit_local_blocks m u) = num_blocks m
           \<and> num_blocks m = int (blockspec_size p)
           \<and> (\<forall>u < teamspec_size p.
                 unit_local_blocks m u =
                   int (length (filter (\<lambda>bi. unit_at p (block_offset p bi) = u)
                                  [0..<blockspec_size p]))
                 \<and> 0 \<le> unit_local_blocks m u)"
proof -
  let ?n = "teamspec_size p"
  from fits have nb: "int32 (int (blockspec_size p)) = int (blockspec_size p)"
    by (simp add: int32_id)
  from owner have owners: "\<forall>bi \<in> set [0..<blockspec_size p].
      unit_at p (block_offset p bi) < length (replicate ?n (0::int))"
    by simp
  have zeros: "\<forall>x \<in> set (replicate ?n (0::int)). 0 \<le> x"
    by simp
  from fits have bound: "sum_list (replicate ?n (0::int)) + int (length [0..<blockspec_size p])
      < 2147483648"
    by (simp add: sum_list_replicate)
  from count_unit_blocks_counts [OF owners zeros bound] obtain ub where
    run: "count_unit_blocks p [0..<blockspec_size p] (replicate ?n 0) = Inr ub" and
    len: "length ub = ?n" and
    sum: "sum_list ub = int (blockspec_size p)" and
    cnt: "\<forall>u < ?n. ub ! u =
            int (length (filter (\<lambda>bi. unit_at p (block_offset p bi) = u) [0..<blockspec_size p]))"
    by (auto simp: sum_list_replicate)
  from units len obtain b bs where ub: "ub = b # bs" by (cases ub) auto
  from run ub nb obtain m where
    m: "init_metrics p = Inr m" and mub: "m_unit_blocks m = ub"
    and mnb: "m_num_blocks m = int (blockspec_size p)"
    by (simp add: init_metrics_def Let_def)
  have "map (unit_local_blocks m) [0..<?n] = map ((!) ub) [0..<length ub]"
    using len mub by (simp add: unit_local_blocks_def [abs_def])
  also have "\<dots> = ub"
    by (rule map_nth)
  finally have "(\<Sum>u\<leftarrow>[0..<?n]. unit_local_blocks m u) = num_blocks m"
    using sum mnb by (simp add: num_blocks_def)
  moreover have "\<forall>u < ?n. unit_local_blocks m u =
                   int (length (filter (\<lambda>bi. unit_at p (block_offset p bi) = u)
                                  [0..<blockspec_size p]))
                 \<and> 0 \<le> unit_local_blocks m u"
    using cnt mub by (simp add: unit_local_blocks_def)
  ultimately show ?thesis
    using m mnb by (auto simp: num_blocks_def)
qed

text \<open>Extents \<open>2 \<times> 6\<close> in column blocks over three units: one block each.\<close>

theorem unit_blocks_sum_to_num_blocks_witness:
  "\<exists>m. init_metrics (blocked_pattern 2 6 3) = Inr m
       \<and> (\<Sum>u\<leftarrow>[0..<3]. unit_local_blocks m u) = 3 \<and> num_blocks m = 3"
proof -
  have units: "0 < teamspec_size (blocked_pattern 2 6 3)"
    by (simp add: blocked_pattern_def)
  have owner: "\<forall>bi < blockspec_size (blocked_pattern 2 6 3).
      unit_at (blocked_pattern 2 6 3) (block_offset (blocked_pattern 2 6 3) bi)
        < teamspec_size (blocked_pattern 2 6 3)"
    by (simp add: blocked_pattern_def)
  have fits: "blockspec_size (blocked_pattern 2 6 3) < 2147483648"
    by (simp add: blocked_pattern_def)
  from unit_blocks_sum_to_num_blocks [OF units owner fits] show ?thesis
    by (auto simp: blocked_pattern_def)
qed

text \<open>
  Claim C8 says that \<open>min_elements_per_unit()\<close> and \<open>max_elements_per_unit()\<close> are the
  minimum and the maximum over the units of the number of pattern elements mapped to the
  unit, and that \<open>imbalance_factor()\<close> is their quotient, 1 exactly when every unit holds
  the same number of elements. The source at the pattern of extents \<open>1 \<times> 5\<close> in column
  blocks over two units: the units hold 3 and 2 elements, the block extent is 3, each unit
  owns one block, and the metrics report a minimum of 3 elements and an imbalance factor
  of 1.
\<close>

theorem min_elements_overcounts_short_block:
  "(case init_metrics (blocked_pattern 1 5 2) of
      Inl e \<Rightarrow> False
    | Inr m \<Rightarrow> min_elements_per_unit m = 3 \<and> max_elements_per_unit m = 3
              \<and> imbalance_factor m = Finite 1)
   \<and> map (elements_of_unit (blocked_pattern 1 5 2)) [0, 1] = [3, 2]"
  by code_simp

end
